theory Spec2Isabelle
  imports Complex_Main "HOL-Library.Sublist"
begin

section \<open>Python strings\<close>

text \<open>
  A Python \<^verbatim>\<open>str\<close> is a sequence of Unicode code points, and \<^verbatim>\<open>len\<close> counts code
  points. A string is therefore a list of code points (natural numbers), so that the
  pictographs of the report (beyond U+00FF) are single characters as they are in Python.
  \<open>asc\<close> embeds an ASCII literal of the source.
\<close>

type_synonym pystr = "nat list"

definition asc :: "string \<Rightarrow> pystr" where
  "asc s = map of_char s"

definition hyphen :: nat where
  "hyphen = 45"

text \<open>
  \<^verbatim>\<open>str.isspace\<close> holds of the code points whose bidirectional class is WS, B or S or
  whose category is Zs. The list is the complete one of CPython (Unicode 14).
\<close>

definition space_points :: "nat list" where
  "space_points =
    [9, 10, 11, 12, 13, 28, 29, 30, 31, 32, 133, 160, 5760, 8192, 8193, 8194, 8195, 8196,
     8197, 8198, 8199, 8200, 8201, 8202, 8232, 8233, 8239, 8287, 12288]"

definition isspace_cp :: "nat \<Rightarrow> bool" where
  "isspace_cp c \<longleftrightarrow> c \<in> set space_points"

text \<open>
  \<^verbatim>\<open>str.isdigit\<close> holds of the code points of numeric type Digit or Decimal: the ASCII
  digits, the superscripts, and the digits of the other scripts. The ranges (inclusive on
  both sides) are the complete table of CPython 3.11 (Unicode 14).
\<close>

definition digit_ranges :: "(nat \<times> nat) list" where
  "digit_ranges =
    [(48, 57), (178, 179), (185, 185), (1632, 1641), (1776, 1785), (1984, 1993),
     (2406, 2415), (2534, 2543), (2662, 2671), (2790, 2799), (2918, 2927), (3046, 3055),
     (3174, 3183), (3302, 3311), (3430, 3439), (3558, 3567), (3664, 3673), (3792, 3801),
     (3872, 3881), (4160, 4169), (4240, 4249), (4969, 4977), (6112, 6121), (6160, 6169),
     (6470, 6479), (6608, 6618), (6784, 6793), (6800, 6809), (6992, 7001), (7088, 7097),
     (7232, 7241), (7248, 7257), (8304, 8304), (8308, 8313), (8320, 8329), (9312, 9320),
     (9332, 9340), (9352, 9360), (9450, 9450), (9461, 9469), (9471, 9471), (10102, 10110),
     (10112, 10120), (10122, 10130), (42528, 42537), (43216, 43225), (43264, 43273),
     (43472, 43481), (43504, 43513), (43600, 43609), (44016, 44025), (65296, 65305),
     (66720, 66729), (68160, 68163), (68912, 68921), (69216, 69224), (69714, 69722),
     (69734, 69743), (69872, 69881), (69942, 69951), (70096, 70105), (70384, 70393),
     (70736, 70745), (70864, 70873), (71248, 71257), (71360, 71369), (71472, 71481),
     (71904, 71913), (72016, 72025), (72784, 72793), (73040, 73049), (73120, 73129),
     (92768, 92777), (92864, 92873), (93008, 93017), (120782, 120831), (123200, 123209),
     (123632, 123641), (125264, 125273), (127232, 127242), (130032, 130041)]"

definition isdigit_cp :: "nat \<Rightarrow> bool" where
  "isdigit_cp c = list_ex (\<lambda>(lo, hi). lo \<le> c \<and> c \<le> hi) digit_ranges"

text \<open>Both string predicates are false of the empty string, as in Python.\<close>

definition str_isspace :: "pystr \<Rightarrow> bool" where
  "str_isspace s \<longleftrightarrow> s \<noteq> [] \<and> list_all isspace_cp s"

definition str_isdigit :: "pystr \<Rightarrow> bool" where
  "str_isdigit s \<longleftrightarrow> s \<noteq> [] \<and> list_all isdigit_cp s"

text \<open>\<^verbatim>\<open>s.replace(old, new)\<close> for a pattern \<open>old\<close> of one character.\<close>

definition str_replace :: "nat \<Rightarrow> pystr \<Rightarrow> pystr \<Rightarrow> pystr" where
  "str_replace old new s = concat (map (\<lambda>c. if c = old then new else [c]) s)"

text \<open>\<^verbatim>\<open>s.strip()\<close> removes the whitespace at both ends.\<close>

definition str_strip :: "pystr \<Rightarrow> pystr" where
  "str_strip s = rev (dropWhile isspace_cp (rev (dropWhile isspace_cp s)))"

text \<open>
  The case mappings are the ASCII part of Python's. \<open>lower_cp\<close> also maps the Kelvin
  sign U+212A to \<open>k\<close>: it is the one code point outside ASCII whose lower case lies in
  ASCII, so that comparing a lowercased string with an ASCII word gives in the model what
  it gives in Python. The words the program lowercases or title-cases itself, and the
  provider's English descriptions and keywords, are ASCII.
\<close>

definition is_ascii_letter :: "nat \<Rightarrow> bool" where
  "is_ascii_letter c \<longleftrightarrow> (65 \<le> c \<and> c \<le> 90) \<or> (97 \<le> c \<and> c \<le> 122)"

definition lower_cp :: "nat \<Rightarrow> nat" where
  "lower_cp c = (if 65 \<le> c \<and> c \<le> 90 then c + 32 else if c = 8490 then 107 else c)"

definition upper_cp :: "nat \<Rightarrow> nat" where
  "upper_cp c = (if 97 \<le> c \<and> c \<le> 122 then c - 32 else c)"

definition str_lower :: "pystr \<Rightarrow> pystr" where
  "str_lower s = map lower_cp s"

text \<open>
  \<^verbatim>\<open>s.title()\<close>: a letter that follows a letter is lowercased, any other letter is
  uppercased. The flag is Python's \<^verbatim>\<open>previous_is_cased\<close>.
\<close>

fun title_from :: "bool \<Rightarrow> pystr \<Rightarrow> pystr" where
  "title_from previous_is_cased [] = []"
| "title_from previous_is_cased (c # cs) =
     (if previous_is_cased then lower_cp c else upper_cp c) # title_from (is_ascii_letter c) cs"

definition str_title :: "pystr \<Rightarrow> pystr" where
  "str_title s = title_from False s"

text \<open>\<^verbatim>\<open>str(n)\<close> for an integer: its decimal digits, with a minus sign when negative.\<close>

fun digits :: "nat \<Rightarrow> pystr" where
  "digits n = (if n < 10 then [48 + n] else digits (n div 10) @ [48 + n mod 10])"

definition str_of_int :: "int \<Rightarrow> pystr" where
  "str_of_int i = (if i < 0 then hyphen # digits (nat (- i)) else digits (nat i))"


section \<open>Input classification\<close>

text \<open>
  \<^verbatim>\<open>WeatherApp.validate_input\<close> returns a pair: whether the input is valid, and then
  either the message or the kind of location, \<^verbatim>\<open>"zip"\<close> or \<^verbatim>\<open>"city"\<close>.
\<close>

definition validate_input :: "pystr \<Rightarrow> bool \<times> pystr" where
  "validate_input input_str =
     (if input_str = [] \<or> str_isspace input_str then (False, asc ''Input cannot be empty.'')
      else if str_isdigit (str_replace hyphen [] input_str) then
        (let clean_zip = str_replace hyphen [] input_str
         in if 5 \<le> length clean_zip then (True, asc ''zip'') else (True, asc ''city''))
      else (True, asc ''city''))"



section \<open>Values of a parsed response\<close>

text \<open>
  \<^verbatim>\<open>response.json()\<close> yields Python values: \<^verbatim>\<open>None\<close>, booleans, integers, floats,
  strings, lists and dictionaries. A dictionary is the list of its items, looked up from
  the front. \<open>JFloat q\<close> is the finite float that denotes the rational \<open>q\<close>; the model
  never computes in floating point: whatever Python computes from a float (its text, a
  quotient, a time of day) is supplied by the runtime below.
\<close>

datatype json =
  JNull
  | JBool bool
  | JInt int
  | JFloat rat
  | JStr pystr
  | JArr "json list"
  | JObj "(pystr \<times> json) list"

text \<open>
  The exceptions that the modelled methods can raise. The three failures of the
  \<^verbatim>\<open>requests\<close> library are subclasses of its \<^verbatim>\<open>RequestException\<close> (the JSON one since
  release 2.27); an exception carries the text that \<^verbatim>\<open>str(e)\<close> gives.
\<close>

datatype request_failure = ConnectionError | HTTPError | JSONDecodeError

datatype pyexc =
  AttributeError
  | IndexError
  | KeyError
  | TypeError
  | ValueError
  | EOFError
  | RequestException request_failure pystr

text \<open>
  What the Python runtime and the operating system supply: the text of a float and of a
  list or dictionary, \<^verbatim>\<open>round(x / 45)\<close> and
  \<^verbatim>\<open>datetime.fromtimestamp(x).strftime('%H:%M:%S')\<close> for a float \<open>x\<close>, and the offset of
  local time from UTC, in seconds, at an instant.
\<close>

record runtime =
  float_str :: "rat \<Rightarrow> pystr"
  container_str :: "json \<Rightarrow> pystr"
  float_round_div45 :: "rat \<Rightarrow> int"
  float_hms :: "rat \<Rightarrow> pyexc + pystr"
  utc_offset :: "int \<Rightarrow> int"

definition bindE :: "pyexc + 'a \<Rightarrow> ('a \<Rightarrow> pyexc + 'b) \<Rightarrow> pyexc + 'b" where
  "bindE m f = (case m of Inl e \<Rightarrow> Inl e | Inr x \<Rightarrow> f x)"

text \<open>The text of a value inside an f-string.\<close>

fun py_str :: "runtime \<Rightarrow> json \<Rightarrow> pystr" where
  "py_str rt JNull = asc ''None''"
| "py_str rt (JBool b) = (if b then asc ''True'' else asc ''False'')"
| "py_str rt (JInt i) = str_of_int i"
| "py_str rt (JFloat x) = float_str rt x"
| "py_str rt (JStr s) = s"
| "py_str rt (JArr xs) = container_str rt (JArr xs)"
| "py_str rt (JObj kv) = container_str rt (JObj kv)"

text \<open>The truth value of a value in a condition.\<close>

fun truthy :: "json \<Rightarrow> bool" where
  "truthy JNull = False"
| "truthy (JBool b) = b"
| "truthy (JInt i) = (i \<noteq> 0)"
| "truthy (JFloat x) = (x \<noteq> 0)"
| "truthy (JStr s) = (s \<noteq> [])"
| "truthy (JArr xs) = (xs \<noteq> [])"
| "truthy (JObj kv) = (kv \<noteq> [])"

text \<open>\<^verbatim>\<open>v == n\<close> for an integer \<open>n\<close>, and \<^verbatim>\<open>v == s\<close> for a string \<open>s\<close>.\<close>

fun eq_int :: "json \<Rightarrow> int \<Rightarrow> bool" where
  "eq_int (JInt i) n = (i = n)"
| "eq_int (JFloat x) n = (x = of_int n)"
| "eq_int (JBool b) n = ((if b then 1 else 0) = n)"
| "eq_int _ n = False"

fun eq_str :: "json \<Rightarrow> pystr \<Rightarrow> bool" where
  "eq_str (JStr s) t = (s = t)"
| "eq_str _ t = False"

text \<open>\<^verbatim>\<open>v.get(key, default)\<close>: only a dictionary has the method.\<close>

fun py_get :: "json \<Rightarrow> pystr \<Rightarrow> json \<Rightarrow> pyexc + json" where
  "py_get (JObj kv) key dflt = Inr (case map_of kv key of None \<Rightarrow> dflt | Some v \<Rightarrow> v)"
| "py_get _ key dflt = Inl AttributeError"

text \<open>\<^verbatim>\<open>v.get(section, {}).get(key, default)\<close>.\<close>

definition get2 :: "json \<Rightarrow> pystr \<Rightarrow> pystr \<Rightarrow> json \<Rightarrow> pyexc + json" where
  "get2 v section key dflt = bindE (py_get v section (JObj [])) (\<lambda>s. py_get s key dflt)"

text \<open>\<^verbatim>\<open>v[0]\<close>.\<close>

fun item0 :: "json \<Rightarrow> pyexc + json" where
  "item0 (JArr []) = Inl IndexError"
| "item0 (JArr (x # xs)) = Inr x"
| "item0 (JStr []) = Inl IndexError"
| "item0 (JStr (c # cs)) = Inr (JStr [c])"
| "item0 (JObj kv) = Inl KeyError"
| "item0 _ = Inl TypeError"

text \<open>\<^verbatim>\<open>v.title()\<close> and \<^verbatim>\<open>v.lower()\<close>: only a string has the methods.\<close>

fun py_title :: "json \<Rightarrow> pyexc + pystr" where
  "py_title (JStr s) = Inr (str_title s)"
| "py_title _ = Inl AttributeError"

fun py_lower :: "json \<Rightarrow> pyexc + pystr" where
  "py_lower (JStr s) = Inr (str_lower s)"
| "py_lower _ = Inl AttributeError"

text \<open>\<^verbatim>\<open>weather_data.get("weather", [{}])[0].get(key, default)\<close>.\<close>

definition weather0 :: "json \<Rightarrow> pystr \<Rightarrow> json \<Rightarrow> pyexc + json" where
  "weather0 weather_data key dflt =
     bindE (py_get weather_data (asc ''weather'') (JArr [JObj []]))
       (\<lambda>w. bindE (item0 w) (\<lambda>w0. py_get w0 key dflt))"


section \<open>Times of day\<close>

text \<open>
  \<^verbatim>\<open>datetime.fromtimestamp(t)\<close> is the local date and time \<open>t\<close> seconds after the epoch,
  and \<^verbatim>\<open>strftime('%H:%M:%S')\<close> prints its time of day with two digits each. The
  conversion fails outside the years 1 to 9999 (with \<^verbatim>\<open>ValueError\<close>, or with
  \<^verbatim>\<open>OverflowError\<close> or \<^verbatim>\<open>OSError\<close> on some platforms, which the model does not tell
  apart). A boolean is an integer in Python; a value that is no number is a type error.
\<close>

definition two_digits :: "nat \<Rightarrow> pystr" where
  "two_digits n = [48 + n div 10, 48 + n mod 10]"

definition hms :: "int \<Rightarrow> pystr" where
  "hms t =
     (let sod = nat (t mod 86400)
      in two_digits (sod div 3600) @ [58] @ two_digits (sod mod 3600 div 60) @ [58] @
         two_digits (sod mod 60))"

definition local_hms :: "runtime \<Rightarrow> int \<Rightarrow> pyexc + pystr" where
  "local_hms rt t =
     (let local = t + utc_offset rt t
      in if - 62135596800 \<le> local \<and> local \<le> 253402300799 then Inr (hms local)
         else Inl ValueError)"

fun fromtimestamp_hms :: "runtime \<Rightarrow> json \<Rightarrow> pyexc + pystr" where
  "fromtimestamp_hms rt (JInt t) = local_hms rt t"
| "fromtimestamp_hms rt (JBool b) = local_hms rt (if b then 1 else 0)"
| "fromtimestamp_hms rt (JFloat x) = float_hms rt x"
| "fromtimestamp_hms rt _ = Inl TypeError"

text \<open>
  The conversion of the source: \<^verbatim>\<open>if sunrise: ... else: sunrise_time = "N/A"\<close>.
\<close>

definition time_text :: "runtime \<Rightarrow> json \<Rightarrow> pyexc + pystr" where
  "time_text rt v = (if truthy v then fromtimestamp_hms rt v else Inr (asc ''N/A''))"


section \<open>The compass\<close>

text \<open>
  Python's \<^verbatim>\<open>round\<close> rounds to the nearest integer, and a tie to the even one. For an
  integer number of degrees \<open>d\<close>, \<^verbatim>\<open>d / 45\<close> is the float nearest to the quotient; the
  quotient is never closer than \<open>1/90\<close> to a tie, so that for \<open>\<bar>d\<bar> < 45 * 2^47\<close> the float
  rounds to the integer that the exact quotient rounds to, which is what the model
  computes. \<^verbatim>\<open>%\<close> with a positive modulus is \<open>mod\<close>.
\<close>

definition py_round :: "rat \<Rightarrow> int" where
  "py_round x =
     (let f = \<lfloor>x\<rfloor>; r = x - of_int f
      in if r < 1 / 2 then f else if 1 / 2 < r then f + 1 else if even f then f else f + 1)"

definition directions :: "pystr list" where
  "directions =
     [asc ''N'', asc ''NE'', asc ''E'', asc ''SE'', asc ''S'', asc ''SW'', asc ''W'', asc ''NW'']"

definition compass :: "int \<Rightarrow> pystr" where
  "compass d = (let index = py_round (of_int d / 45) mod 8 in directions ! nat index)"

fun wind_direction :: "runtime \<Rightarrow> json \<Rightarrow> pyexc + pystr" where
  "wind_direction rt (JInt d) = Inr (compass d)"
| "wind_direction rt (JBool b) = Inr (compass (if b then 1 else 0))"
| "wind_direction rt (JFloat x) = Inr (directions ! nat (float_round_div45 rt x mod 8))"
| "wind_direction rt _ = Inl TypeError"


section \<open>The application object\<close>

record weather_app =
  api_key :: pystr
  base_url :: pystr
  units :: pystr

text \<open>\<^verbatim>\<open>WeatherApp.__init__\<close>.\<close>

definition init :: "pystr \<Rightarrow> weather_app" where
  "init key =
     \<lparr>api_key = key, base_url = asc ''http://api.openweathermap.org/data/2.5/weather'',
      units = asc ''metric''\<rparr>"


section \<open>Rendering a response\<close>

text \<open>The lines of the report, each the argument of one \<^verbatim>\<open>print\<close>.\<close>

definition unit_symbol :: "weather_app \<Rightarrow> pystr" where
  "unit_symbol app = (if units app = asc ''metric'' then [176] @ asc ''C'' else [176] @ asc ''F'')"

definition error_line :: "pystr \<Rightarrow> pystr" where
  "error_line message = asc ''Error: '' @ message"

definition forecast_line :: "pystr \<Rightarrow> pystr \<Rightarrow> pystr" where
  "forecast_line city country = asc ''WEATHER FORECAST - '' @ city @ asc '', '' @ country"

definition conditions_line :: "pystr \<Rightarrow> pystr" where
  "conditions_line weather_desc = [10, 127780, 65039] @ asc ''  Current Conditions: '' @ weather_desc"

definition temperature_line :: "pystr \<Rightarrow> pystr \<Rightarrow> pystr \<Rightarrow> pystr" where
  "temperature_line temp feels_like symbol =
     [127777, 65039] @ asc ''  Temperature: '' @ temp @ symbol @ asc '' (Feels like: '' @
     feels_like @ symbol @ asc '')''"

definition humidity_line :: "pystr \<Rightarrow> pystr" where
  "humidity_line humidity = [128167] @ asc '' Humidity: '' @ humidity @ asc ''%''"

definition pressure_line :: "pystr \<Rightarrow> pystr" where
  "pressure_line pressure = [128202] @ asc '' Pressure: '' @ pressure @ asc '' hPa''"

definition wind_speed_line :: "pystr \<Rightarrow> pystr" where
  "wind_speed_line wind_speed = [128168] @ asc '' Wind Speed: '' @ wind_speed @ asc '' m/s''"

definition wind_direction_prefix :: pystr where
  "wind_direction_prefix = [129517] @ asc '' Wind Direction: ''"

definition wind_direction_line :: "pystr \<Rightarrow> pystr \<Rightarrow> pystr" where
  "wind_direction_line direction wind_dir =
     wind_direction_prefix @ direction @ asc '' ('' @ wind_dir @ [176] @ asc '')''"

definition visibility_line :: "runtime \<Rightarrow> json \<Rightarrow> pystr" where
  "visibility_line rt visibility =
     (if \<not> eq_str visibility (asc ''N/A'')
      then [128065, 65039] @ asc ''  Visibility: '' @ py_str rt visibility @ asc '' meters''
      else [128065, 65039] @ asc ''  Visibility: N/A'')"

definition sunrise_line :: "pystr \<Rightarrow> pystr" where
  "sunrise_line sunrise_time = [127749] @ asc '' Sunrise: '' @ sunrise_time"

definition sunset_line :: "pystr \<Rightarrow> pystr" where
  "sunset_line sunset_time = [127751] @ asc '' Sunset: '' @ sunset_time"

definition icon_line :: "pystr \<Rightarrow> pystr" where
  "icon_line icon = asc ''Weather Icon: '' @ icon"

definition cloud_line :: "pystr \<Rightarrow> pystr" where
  "cloud_line clouds = [9729, 65039] @ asc ''  Cloud Coverage: '' @ clouds @ asc ''%''"

definition icons :: "(pystr \<times> pystr) list" where
  "icons =
     [(asc ''clear'', [9728, 65039]),
      (asc ''clouds'', [9729, 65039]),
      (asc ''rain'', [127783, 65039]),
      (asc ''drizzle'', [127782, 65039]),
      (asc ''thunderstorm'', [9928, 65039]),
      (asc ''snow'', [10052, 65039]),
      (asc ''mist'', [127787, 65039]),
      (asc ''smoke'', [128168]),
      (asc ''haze'', [128566, 8205, 127787, 65039]),
      (asc ''dust'', [127786, 65039]),
      (asc ''fog'', [127745])]"

text \<open>
  The local variables of \<^verbatim>\<open>display_weather\<close> that are assigned before the first line of
  the report is printed; the field \<open>r_x\<close> is the variable \<open>x\<close>.
\<close>

record report =
  r_city :: json
  r_country :: json
  r_temp :: json
  r_feels_like :: json
  r_humidity :: json
  r_pressure :: json
  r_weather_desc :: pystr
  r_wind_speed :: json
  r_wind_dir :: json
  r_visibility :: json
  r_sunrise_time :: pystr
  r_sunset_time :: pystr

definition extract_report :: "runtime \<Rightarrow> json \<Rightarrow> pyexc + report" where
  "extract_report rt weather_data =
     bindE (py_get weather_data (asc ''name'') (JStr (asc ''Unknown''))) (\<lambda>city.
     bindE (get2 weather_data (asc ''sys'') (asc ''country'') (JStr [])) (\<lambda>country.
     bindE (get2 weather_data (asc ''main'') (asc ''temp'') (JStr (asc ''N/A''))) (\<lambda>temp.
     bindE (get2 weather_data (asc ''main'') (asc ''feels_like'') (JStr (asc ''N/A''))) (\<lambda>feels_like.
     bindE (get2 weather_data (asc ''main'') (asc ''humidity'') (JStr (asc ''N/A''))) (\<lambda>humidity.
     bindE (get2 weather_data (asc ''main'') (asc ''pressure'') (JStr (asc ''N/A''))) (\<lambda>pressure.
     bindE (bindE (weather0 weather_data (asc ''description'') (JStr (asc ''N/A''))) py_title)
       (\<lambda>weather_desc.
     bindE (get2 weather_data (asc ''wind'') (asc ''speed'') (JStr (asc ''N/A''))) (\<lambda>wind_speed.
     bindE (get2 weather_data (asc ''wind'') (asc ''deg'') (JStr (asc ''N/A''))) (\<lambda>wind_dir.
     bindE (py_get weather_data (asc ''visibility'') (JStr (asc ''N/A''))) (\<lambda>visibility.
     bindE (get2 weather_data (asc ''sys'') (asc ''sunrise'') JNull) (\<lambda>sunrise.
     bindE (get2 weather_data (asc ''sys'') (asc ''sunset'') JNull) (\<lambda>sunset.
     bindE (time_text rt sunrise) (\<lambda>sunrise_time.
     bindE (time_text rt sunset) (\<lambda>sunset_time.
     Inr \<lparr>r_city = city, r_country = country, r_temp = temp, r_feels_like = feels_like,
          r_humidity = humidity, r_pressure = pressure, r_weather_desc = weather_desc,
          r_wind_speed = wind_speed, r_wind_dir = wind_dir, r_visibility = visibility,
          r_sunrise_time = sunrise_time, r_sunset_time = sunset_time\<rparr>))))))))))))))"

text \<open>
  The lines from the header to the wind speed, the wind direction line (printed only when
  \<^verbatim>\<open>wind_dir != "N/A"\<close>), and the lines from the visibility to the banner of the
  additional details.
\<close>

definition head_lines :: "runtime \<Rightarrow> weather_app \<Rightarrow> report \<Rightarrow> pystr list" where
  "head_lines rt app r =
     [[10] @ replicate 50 61,
      forecast_line (py_str rt (r_city r)) (py_str rt (r_country r)),
      replicate 50 61,
      conditions_line (r_weather_desc r),
      temperature_line (py_str rt (r_temp r)) (py_str rt (r_feels_like r)) (unit_symbol app),
      humidity_line (py_str rt (r_humidity r)),
      pressure_line (py_str rt (r_pressure r)),
      wind_speed_line (py_str rt (r_wind_speed r))]"

definition wind_direction_lines :: "runtime \<Rightarrow> json \<Rightarrow> pyexc + pystr list" where
  "wind_direction_lines rt wind_dir =
     (if \<not> eq_str wind_dir (asc ''N/A'')
      then bindE (wind_direction rt wind_dir)
             (\<lambda>direction. Inr [wind_direction_line direction (py_str rt wind_dir)])
      else Inr [])"

definition middle_lines :: "runtime \<Rightarrow> report \<Rightarrow> pystr list" where
  "middle_lines rt r =
     [visibility_line rt (r_visibility r),
      sunrise_line (r_sunrise_time r),
      sunset_line (r_sunset_time r),
      [10] @ replicate 30 45,
      asc ''Additional Details:'',
      replicate 30 45]"

text \<open>
  \<^verbatim>\<open>WeatherApp.display_weather\<close>: the lines printed, in order, and the exception that ended
  the method, if one did. The lines printed before an exception stay printed.
\<close>

definition print_report :: "runtime \<Rightarrow> weather_app \<Rightarrow> json \<Rightarrow> report \<Rightarrow> pystr list \<times> pyexc option" where
  "print_report rt app weather_data r =
     (case wind_direction_lines rt (r_wind_dir r) of
        Inl e \<Rightarrow> (head_lines rt app r, Some e)
      | Inr wind_lines \<Rightarrow>
          (let printed = head_lines rt app r @ wind_lines @ middle_lines rt r
           in case bindE (weather0 weather_data (asc ''main'') (JStr [])) py_lower of
                Inl e \<Rightarrow> (printed, Some e)
              | Inr weather_main \<Rightarrow>
                  (let icon = (case map_of icons weather_main of
                                 None \<Rightarrow> [127752] | Some i \<Rightarrow> i);
                       printed = printed @ [icon_line icon]
                   in case get2 weather_data (asc ''clouds'') (asc ''all'') (JStr (asc ''N/A'')) of
                        Inl e \<Rightarrow> (printed, Some e)
                      | Inr clouds \<Rightarrow>
                          (printed @ [cloud_line (py_str rt clouds), replicate 50 61 @ [10]],
                           None))))"

definition display_weather :: "runtime \<Rightarrow> weather_app \<Rightarrow> json \<Rightarrow> pystr list \<times> pyexc option" where
  "display_weather rt app weather_data =
     (if \<not> truthy weather_data then ([asc ''No weather data to display.''], None)
      else case py_get weather_data (asc ''cod'') JNull of
        Inl e \<Rightarrow> ([], Some e)
      | Inr cod \<Rightarrow>
          if \<not> eq_int cod 200 then
            (case py_get weather_data (asc ''message'') (JStr (asc ''Unknown error'')) of
               Inl e \<Rightarrow> ([], Some e)
             | Inr message \<Rightarrow> ([error_line (py_str rt message)], None))
          else
            (case extract_report rt weather_data of
               Inl e \<Rightarrow> ([], Some e)
             | Inr r \<Rightarrow> print_report rt app weather_data r))"


section \<open>The console and the network\<close>

text \<open>
  The world outside the program: the lines still to be typed, what was written to the
  console (the argument of each \<^verbatim>\<open>print\<close> and each prompt, in order), and the requests
  passed to \<^verbatim>\<open>requests.get\<close>, each the URL and the query parameters in the order of the
  dictionary.
\<close>

type_synonym request = "pystr \<times> (pystr \<times> pystr) list"

record world =
  stdin :: "pystr list"
  stdout :: "pystr list"
  sent :: "request list"

definition print_out :: "pystr list \<Rightarrow> world \<Rightarrow> world" where
  "print_out texts w = w\<lparr>stdout := stdout w @ texts\<rparr>"

text \<open>\<^verbatim>\<open>input(prompt)\<close> writes the prompt and reads a line; at the end of input it raises.\<close>

definition py_input :: "pystr \<Rightarrow> world \<Rightarrow> (pyexc + pystr) \<times> world" where
  "py_input prompt w =
     (case stdin w of
        [] \<Rightarrow> (Inl EOFError, print_out [prompt] w)
      | line # rest \<Rightarrow> (Inr line, (print_out [prompt] w)\<lparr>stdin := rest\<rparr>))"

text \<open>
  The answer of the network to a request: \<^verbatim>\<open>requests.get\<close> raises or returns a response;
  \<^verbatim>\<open>raise_for_status\<close> raises on a response with a bad status, and \<^verbatim>\<open>json\<close> raises on a
  body that is no JSON text.
\<close>

record response =
  status_error :: "pyexc option"
  json_body :: "pyexc + json"

type_synonym network = "request \<Rightarrow> pyexc + response"

text \<open>
  \<^verbatim>\<open>except requests.exceptions.RequestException as e\<close>: the failure is printed and the
  method returns \<^verbatim>\<open>None\<close>; any other exception leaves the method.
\<close>

fun except_request :: "pyexc \<Rightarrow> world \<Rightarrow> (pyexc + json) \<times> world" where
  "except_request (RequestException failure text) w =
     (Inr JNull, print_out [asc ''Error fetching weather data: '' @ text] w)"
| "except_request e w = (Inl e, w)"

text \<open>The \<^verbatim>\<open>try\<close> block that the two fetching methods share word for word.\<close>

definition try_request :: "network \<Rightarrow> request \<Rightarrow> world \<Rightarrow> (pyexc + json) \<times> world" where
  "try_request net rq w =
     (let w = w\<lparr>sent := sent w @ [rq]\<rparr>
      in case net rq of
           Inl e \<Rightarrow> except_request e w
         | Inr response \<Rightarrow>
             (case status_error response of
                Some e \<Rightarrow> except_request e w
              | None \<Rightarrow>
                  (case json_body response of
                     Inl e \<Rightarrow> except_request e w
                   | Inr v \<Rightarrow> (Inr v, w))))"

definition city_params :: "weather_app \<Rightarrow> pystr \<Rightarrow> (pystr \<times> pystr) list" where
  "city_params app city_name =
     [(asc ''q'', city_name), (asc ''appid'', api_key app), (asc ''units'', units app),
      (asc ''lang'', asc ''en'')]"

definition zip_params :: "weather_app \<Rightarrow> pystr \<Rightarrow> pystr \<Rightarrow> (pystr \<times> pystr) list" where
  "zip_params app zip_code country_code =
     [(asc ''zip'', zip_code @ asc '','' @ country_code), (asc ''appid'', api_key app),
      (asc ''units'', units app), (asc ''lang'', asc ''en'')]"

definition get_weather_by_city ::
  "network \<Rightarrow> weather_app \<Rightarrow> pystr \<Rightarrow> world \<Rightarrow> (pyexc + json) \<times> world" where
  "get_weather_by_city net app city_name w =
     try_request net (base_url app, city_params app city_name) w"

definition get_weather_by_zip ::
  "network \<Rightarrow> weather_app \<Rightarrow> pystr \<Rightarrow> pystr \<Rightarrow> world \<Rightarrow> (pyexc + json) \<times> world" where
  "get_weather_by_zip net app zip_code country_code w =
     try_request net (base_url app, zip_params app zip_code country_code) w"


section \<open>The unit preference\<close>




section \<open>Checking the weather\<close>

text \<open>
  The end of \<^verbatim>\<open>check_weather\<close>: a result that is true in a condition is displayed, any
  other is reported as no data.
\<close>

definition show_result ::
  "runtime \<Rightarrow> weather_app \<Rightarrow> (pyexc + json) \<times> world \<Rightarrow> pyexc option \<times> world" where
  "show_result rt app fetched =
     (case fetched of
        (Inl e, w) \<Rightarrow> (Some e, w)
      | (Inr weather_data, w) \<Rightarrow>
          if truthy weather_data then
            (let (printed, raised) = display_weather rt app weather_data
             in (raised, print_out printed w))
          else
            (None,
             print_out
               [asc ''Could not retrieve weather data. Please check your input and try again.'']
               w))"

definition check_weather ::
  "runtime \<Rightarrow> network \<Rightarrow> weather_app \<Rightarrow> world \<Rightarrow> pyexc option \<times> world" where
  "check_weather rt net app w =
     (case py_input ([10] @ asc ''Enter city name or ZIP code: '') w of
        (Inl e, w) \<Rightarrow> (Some e, w)
      | (Inr line, w) \<Rightarrow>
          (let location = str_strip line;
               (is_valid, input_type) = validate_input location
           in if \<not> is_valid then (None, print_out [asc ''Invalid input. Please try again.''] w)
              else if input_type = asc ''zip'' then
                (case py_input
                        (asc ''Enter country code (e.g., US, UK, IN) or press Enter for US: '') w of
                   (Inl e, w) \<Rightarrow> (Some e, w)
                 | (Inr line, w) \<Rightarrow>
                     (let country = str_strip line;
                          country = (if country \<noteq> [] then country else asc ''US'')
                      in show_result rt app (get_weather_by_zip net app location country w)))
              else show_result rt app (get_weather_by_city net app location w)))"


section \<open>The shape of the provider's responses\<close>

text \<open>
  The paths of a response: a field of the object, a field of one of its sections, and a
  field of the first element of its \<^verbatim>\<open>weather\<close> list. \<open>None\<close> is an absent field.
\<close>

fun field :: "json \<Rightarrow> pystr \<Rightarrow> json option" where
  "field (JObj kv) key = map_of kv key"
| "field _ key = None"

definition field2 :: "json \<Rightarrow> pystr \<Rightarrow> pystr \<Rightarrow> json option" where
  "field2 v section key = (case field v section of None \<Rightarrow> None | Some s \<Rightarrow> field s key)"

definition weather_field :: "json \<Rightarrow> pystr \<Rightarrow> json option" where
  "weather_field v key =
     (case field v (asc ''weather'') of Some (JArr (w # ws)) \<Rightarrow> field w key | _ \<Rightarrow> None)"

definition get_or :: "json option \<Rightarrow> json \<Rightarrow> json" where
  "get_or v dflt = (case v of None \<Rightarrow> dflt | Some x \<Rightarrow> x)"

definition absent_or :: "(json \<Rightarrow> bool) \<Rightarrow> json option \<Rightarrow> bool" where
  "absent_or P v = (case v of None \<Rightarrow> True | Some x \<Rightarrow> P x)"

fun is_object :: "json \<Rightarrow> bool" where
  "is_object (JObj kv) = True"
| "is_object _ = False"

fun is_string :: "json \<Rightarrow> bool" where
  "is_string (JStr s) = True"
| "is_string _ = False"

fun is_number :: "json \<Rightarrow> bool" where
  "is_number (JInt i) = True"
| "is_number (JFloat x) = True"
| "is_number _ = False"

text \<open>An epoch is a number of seconds whose local date lies in the years 1 to 9999.\<close>

fun is_epoch :: "runtime \<Rightarrow> json \<Rightarrow> bool" where
  "is_epoch rt (JInt t) =
     (- 62135596800 \<le> t + utc_offset rt t \<and> t + utc_offset rt t \<le> 253402300799)"
| "is_epoch rt (JFloat x) = (case float_hms rt x of Inl e \<Rightarrow> False | Inr s \<Rightarrow> True)"
| "is_epoch rt _ = False"

fun is_weather_list :: "json \<Rightarrow> bool" where
  "is_weather_list (JArr (JObj w # ws)) =
     (absent_or is_string (map_of w (asc ''description'')) \<and>
      absent_or is_string (map_of w (asc ''main'')))"
| "is_weather_list _ = False"

text \<open>
  The responses of the provider's schema, in which every field may be absent: the response
  is an object; \<^verbatim>\<open>sys\<close>, \<^verbatim>\<open>main\<close>, \<^verbatim>\<open>wind\<close> and \<^verbatim>\<open>clouds\<close> are objects; \<^verbatim>\<open>weather\<close> is a
  list whose first element is an object with a description and a keyword that are
  strings; the wind direction is a number; sunrise and sunset are epochs. The other
  fields may hold any value.
\<close>

definition provider_shape :: "runtime \<Rightarrow> json \<Rightarrow> bool" where
  "provider_shape rt v \<longleftrightarrow>
     is_object v \<and>
     absent_or is_object (field v (asc ''sys'')) \<and>
     absent_or is_object (field v (asc ''main'')) \<and>
     absent_or is_object (field v (asc ''wind'')) \<and>
     absent_or is_object (field v (asc ''clouds'')) \<and>
     absent_or is_weather_list (field v (asc ''weather'')) \<and>
     absent_or is_number (field2 v (asc ''wind'') (asc ''deg'')) \<and>
     absent_or (is_epoch rt) (field2 v (asc ''sys'') (asc ''sunrise'')) \<and>
     absent_or (is_epoch rt) (field2 v (asc ''sys'') (asc ''sunset''))"

text \<open>A successful response carries the status code 200.\<close>

definition successful :: "json \<Rightarrow> bool" where
  "successful v \<longleftrightarrow> eq_int (get_or (field v (asc ''cod'')) JNull) 200"

text \<open>
  The report as the specification describes it: every line is made from the field of its
  own path, or from the default of that field when the field is absent, and the wind
  direction line is there only when the direction is.
\<close>

definition na :: json where
  "na = JStr (asc ''N/A'')"

definition text_of :: "pyexc + pystr \<Rightarrow> pystr" where
  "text_of m = (case m of Inl e \<Rightarrow> [] | Inr s \<Rightarrow> s)"

definition rendered_report :: "runtime \<Rightarrow> weather_app \<Rightarrow> json \<Rightarrow> pystr list" where
  "rendered_report rt app v =
     [[10] @ replicate 50 61,
      forecast_line (py_str rt (get_or (field v (asc ''name'')) (JStr (asc ''Unknown''))))
        (py_str rt (get_or (field2 v (asc ''sys'') (asc ''country'')) (JStr []))),
      replicate 50 61,
      conditions_line (text_of (py_title (get_or (weather_field v (asc ''description'')) na))),
      temperature_line (py_str rt (get_or (field2 v (asc ''main'') (asc ''temp'')) na))
        (py_str rt (get_or (field2 v (asc ''main'') (asc ''feels_like'')) na)) (unit_symbol app),
      humidity_line (py_str rt (get_or (field2 v (asc ''main'') (asc ''humidity'')) na)),
      pressure_line (py_str rt (get_or (field2 v (asc ''main'') (asc ''pressure'')) na)),
      wind_speed_line (py_str rt (get_or (field2 v (asc ''wind'') (asc ''speed'')) na))] @
     (case field2 v (asc ''wind'') (asc ''deg'') of
        None \<Rightarrow> []
      | Some deg \<Rightarrow> [wind_direction_line (text_of (wind_direction rt deg)) (py_str rt deg)]) @
     [visibility_line rt (get_or (field v (asc ''visibility'')) na),
      sunrise_line (text_of (time_text rt (get_or (field2 v (asc ''sys'') (asc ''sunrise'')) JNull))),
      sunset_line (text_of (time_text rt (get_or (field2 v (asc ''sys'') (asc ''sunset'')) JNull))),
      [10] @ replicate 30 45,
      asc ''Additional Details:'',
      replicate 30 45,
      icon_line
        (case map_of icons
                (text_of (py_lower (get_or (weather_field v (asc ''main'')) (JStr [])))) of
           None \<Rightarrow> [127752]
         | Some icon \<Rightarrow> icon),
      cloud_line (py_str rt (get_or (field2 v (asc ''clouds'') (asc ''all'')) na)),
      replicate 50 61 @ [10]]"


section \<open>A runtime and a network for evaluation\<close>

text \<open>
  The runtime of a machine whose local time is UTC. It is used to evaluate the model on
  responses that contain neither floats nor lists or dictionaries to print, so that what it
  gives for them (exact arithmetic and a fixed word) plays no part.
\<close>

definition utc_runtime :: runtime where
  "utc_runtime =
     \<lparr>float_str = (\<lambda>x. asc ''float''), container_str = (\<lambda>v. asc ''container''),
      float_round_div45 = (\<lambda>x. py_round (x / 45)), float_hms = (\<lambda>x. Inr (hms \<lfloor>x\<rfloor>)),
      utc_offset = (\<lambda>t. 0)\<rparr>"

text \<open>A network that gives every request the same answer, and an idle console.\<close>

definition fixed_network :: "pyexc + response \<Rightarrow> network" where
  "fixed_network answer rq = answer"

definition console :: "pystr list \<Rightarrow> world" where
  "console typed = \<lparr>stdin = typed, stdout = [], sent = []\<rparr>"


section \<open>Facts about strings\<close>

lemma asc_eq_iff [simp]: "asc s = asc t \<longleftrightarrow> s = t"
  by (simp add: asc_def inj_on_def)

lemma asc_Nil [simp]: "asc [] = []"
  by (simp add: asc_def)

lemma asc_eq_Nil_iff [simp]: "asc s = [] \<longleftrightarrow> s = []"
  by (simp add: asc_def)

lemma Nil_eq_asc_iff [simp]: "[] = asc s \<longleftrightarrow> s = []"
  by (simp add: asc_def)

lemma asc_append: "asc (s @ t) = asc s @ asc t"
  by (simp add: asc_def)

lemma str_replace_empty: "str_replace old [] s = filter (\<lambda>c. c \<noteq> old) s"
  by (induction s) (simp_all add: str_replace_def)

lemma isdigit_not_hyphen: "\<not> isdigit_cp hyphen"
  by (simp add: isdigit_cp_def digit_ranges_def hyphen_def)

lemma hyphen_not_space: "\<not> isspace_cp hyphen"
  by (simp add: isspace_cp_def space_points_def hyphen_def)

lemma space_points_not_digit: "list_all (\<lambda>c. \<not> isdigit_cp c) space_points"
  by (simp add: isdigit_cp_def digit_ranges_def space_points_def)

lemma isdigit_not_space: "isdigit_cp c \<Longrightarrow> \<not> isspace_cp c"
  using space_points_not_digit by (auto simp: list_all_iff isspace_cp_def)

lemma str_strip_id:
  assumes "\<forall>c\<in>set s. \<not> isspace_cp c"
  shows "str_strip s = s"
proof -
  have "\<And>xs. \<forall>c\<in>set xs. \<not> isspace_cp c \<Longrightarrow> dropWhile isspace_cp xs = xs"
    by (simp add: dropWhile_eq_self_iff)
  from this [of s] this [of "rev s"] assms show ?thesis
    by (simp add: str_strip_def)
qed

lemma str_isdigit_filter_iff:
  "str_isdigit (filter (\<lambda>c. c \<noteq> hyphen) s) \<and> 5 \<le> length (filter (\<lambda>c. c \<noteq> hyphen) s) \<longleftrightarrow>
   (\<forall>c\<in>set s. isdigit_cp c \<or> c = hyphen) \<and> 5 \<le> length (filter (\<lambda>c. c \<noteq> hyphen) s)"
  by (auto simp: str_isdigit_def list_all_iff)

section \<open>Classification of the input\<close>

text \<open>
  Claim C1. An input that is empty or consists of whitespace only is rejected with the
  message of an invalid input. Every other input whose characters are all digits or
  hyphens and that keeps at least five characters once the hyphens are removed is
  classified as a postal code (\<^verbatim>\<open>"zip"\<close>); every remaining input is classified as a
  city.
\<close>

theorem validate_input_classification:
  "(input_str = [] \<or> str_isspace input_str \<longrightarrow>
      validate_input input_str = (False, asc ''Input cannot be empty.'')) \<and>
   (\<not> (input_str = [] \<or> str_isspace input_str) \<and>
    (\<forall>c\<in>set input_str. isdigit_cp c \<or> c = hyphen) \<and>
    5 \<le> length (filter (\<lambda>c. c \<noteq> hyphen) input_str) \<longrightarrow>
      validate_input input_str = (True, asc ''zip'')) \<and>
   (\<not> (input_str = [] \<or> str_isspace input_str) \<and>
    \<not> ((\<forall>c\<in>set input_str. isdigit_cp c \<or> c = hyphen) \<and>
       5 \<le> length (filter (\<lambda>c. c \<noteq> hyphen) input_str)) \<longrightarrow>
      validate_input input_str = (True, asc ''city''))"
  using str_isdigit_filter_iff [of input_str]
  unfolding validate_input_def str_replace_empty Let_def
  by (cases "input_str = [] \<or> str_isspace input_str") auto

theorem validate_input_classification_witness:
  "validate_input [] = (False, asc ''Input cannot be empty.'') \<and>
   validate_input (asc ''   '') = (False, asc ''Input cannot be empty.'') \<and>
   validate_input (asc ''12345-6789'') = (True, asc ''zip'') \<and>
   validate_input (asc ''1234'') = (True, asc ''city'') \<and>
   validate_input (asc ''New York'') = (True, asc ''city'')"
  using validate_input_classification [of "[]"]
    validate_input_classification [of "asc ''   ''"]
    validate_input_classification [of "asc ''12345-6789''"]
    validate_input_classification [of "asc ''1234''"]
    validate_input_classification [of "asc ''New York''"]
  by (simp add: asc_def str_isspace_def isspace_cp_def space_points_def isdigit_cp_def
      digit_ranges_def hyphen_def)


section \<open>The compass is periodic\<close>


text \<open>
  The rounded quotient is a nearest integer, and for an integer number of degrees it is
  given by integer arithmetic: no number of degrees is a tie.
\<close>

lemma py_round_nearest: "\<bar>of_int (py_round x) - x\<bar> \<le> 1 / 2"
proof -
  define r where "r = x - of_int \<lfloor>x\<rfloor>"
  have "0 \<le> r" "r < 1"
    unfolding r_def by linarith+
  moreover have "py_round x = (if r < 1 / 2 then \<lfloor>x\<rfloor> else if 1 / 2 < r then \<lfloor>x\<rfloor> + 1
      else if even \<lfloor>x\<rfloor> then \<lfloor>x\<rfloor> else \<lfloor>x\<rfloor> + 1)"
    by (simp add: py_round_def r_def Let_def)
  moreover have "x = of_int \<lfloor>x\<rfloor> + r"
    by (simp add: r_def)
  ultimately show ?thesis
    by (auto simp: abs_le_iff split: if_splits)
qed

lemma floor_div45: "\<lfloor>(of_int d :: rat) / 45\<rfloor> = d div 45"
  using floor_divide_of_int_eq [of d 45, where ?'a = rat] by simp

lemma py_round_div45: "py_round (of_int d / 45) = (2 * d + 45) div 90"
proof -
  define q m where "q = d div 45" and "m = d mod 45"
  have d: "d = 45 * q + m" and m: "0 \<le> m" "m < 45"
    by (simp_all add: q_def m_def)
  have r: "(of_int d :: rat) / 45 - of_int q = of_int m / 45"
    by (simp add: d field_simps)
  have half: "(of_int m :: rat) / 45 < 1 / 2 \<longleftrightarrow> m \<le> 22" "(1 :: rat) / 2 < of_int m / 45 \<longleftrightarrow> 23 \<le> m"
    by (simp_all add: field_simps) (linarith+)?
  have "(2 * d + 45) div 90 = (if m \<le> 22 then q else q + 1)"
  proof (cases "m \<le> 22")
    case True
    with m have "(2 * m + 45) div 90 = 0"
      by simp
    with True show ?thesis
      using div_mult_self2 [of 90 "2 * m + 45" q] by (simp add: d algebra_simps)
  next
    case False
    with m have "(2 * m - 45) div 90 = 0"
      by simp
    with False show ?thesis
      using div_mult_self2 [of 90 "2 * m - 45" "q + 1"] by (simp add: d algebra_simps)
  qed
  then show ?thesis
    using m unfolding py_round_def Let_def floor_div45 q_def [symmetric] r half
    by auto
qed




section \<open>Reading the fields of a response\<close>

lemma bindE_Inr [simp]: "bindE (Inr x) f = f x"
  by (simp add: bindE_def)

lemma bindE_Inl [simp]: "bindE (Inl e) f = Inl e"
  by (simp add: bindE_def)

lemma py_get_field: "is_object v \<Longrightarrow> py_get v key dflt = Inr (get_or (field v key) dflt)"
  by (cases v) (simp_all add: get_or_def)

lemma get2_field2:
  assumes "is_object v" and "absent_or is_object (field v section)"
  shows "get2 v section key dflt = Inr (get_or (field2 v section key) dflt)"
proof (cases "field v section")
  case None
  with assms show ?thesis
    by (simp add: get2_def py_get_field field2_def get_or_def)
next
  case (Some s)
  with assms have "is_object s"
    by (simp add: absent_or_def)
  with Some assms show ?thesis
    by (simp add: get2_def py_get_field field2_def get_or_def)
qed

lemma weather0_field:
  assumes "is_object v" and "absent_or is_weather_list (field v (asc ''weather''))"
  shows "weather0 v key dflt = Inr (get_or (weather_field v key) dflt)"
proof (cases "field v (asc ''weather'')")
  case None
  with assms show ?thesis
    by (simp add: weather0_def py_get_field weather_field_def get_or_def)
next
  case (Some l)
  with assms have "is_weather_list l"
    by (simp add: absent_or_def)
  then obtain w ws where "l = JArr (JObj w # ws)"
    by (induction l rule: is_weather_list.induct) simp_all
  with Some assms show ?thesis
    by (simp add: weather0_def py_get_field weather_field_def get_or_def)
qed

lemma weather_field_string:
  assumes "absent_or is_weather_list (field v (asc ''weather''))"
    and "key = asc ''description'' \<or> key = asc ''main''" and "is_string dflt"
  shows "is_string (get_or (weather_field v key) dflt)"
proof (cases "field v (asc ''weather'')")
  case None
  with assms show ?thesis
    by (simp add: weather_field_def get_or_def)
next
  case (Some l)
  with assms have "is_weather_list l"
    by (simp add: absent_or_def)
  then obtain w ws where l: "l = JArr (JObj w # ws)"
    and "absent_or is_string (map_of w (asc ''description''))"
    and "absent_or is_string (map_of w (asc ''main''))"
    by (induction l rule: is_weather_list.induct) simp_all
  with Some assms show ?thesis
    by (auto simp: weather_field_def get_or_def absent_or_def split: option.splits)
qed

lemma py_title_string: "is_string v \<Longrightarrow> \<exists>s. py_title v = Inr s"
  by (cases v) simp_all

lemma py_lower_string: "is_string v \<Longrightarrow> \<exists>s. py_lower v = Inr s"
  by (cases v) simp_all

lemma time_text_epoch:
  assumes "absent_or (is_epoch rt) v"
  shows "bindE (time_text rt (get_or v JNull)) f = f (text_of (time_text rt (get_or v JNull)))"
proof (cases v)
  case None
  then show ?thesis
    by (simp add: get_or_def time_text_def text_of_def)
next
  case (Some t)
  with assms have "is_epoch rt t"
    by (simp add: absent_or_def)
  then have "\<exists>s. time_text rt t = Inr s"
    by (induction rt t rule: is_epoch.induct)
      (auto simp: time_text_def local_hms_def Let_def split: sum.splits)
  with Some show ?thesis
    by (auto simp: get_or_def text_of_def)
qed

lemma wind_direction_lines_number:
  assumes "absent_or is_number v"
  shows "wind_direction_lines rt (get_or v na) =
    Inr (case v of None \<Rightarrow> []
         | Some deg \<Rightarrow> [wind_direction_line (text_of (wind_direction rt deg)) (py_str rt deg)])"
proof (cases v)
  case None
  then show ?thesis
    by (simp add: get_or_def wind_direction_lines_def na_def)
next
  case (Some deg)
  with assms have "is_number deg"
    by (simp add: absent_or_def)
  then obtain s where "\<not> eq_str deg (asc ''N/A'')" and "wind_direction rt deg = Inr s"
    by (cases deg) simp_all
  with Some show ?thesis
    by (simp add: get_or_def wind_direction_lines_def text_of_def)
qed


lemma successful_truthy: "successful v \<Longrightarrow> truthy v"
  by (cases v) (auto simp: successful_def get_or_def)

lemma display_weather_rendered:
  assumes shape: "provider_shape rt v" and ok: "successful v"
  shows "display_weather rt app v = (rendered_report rt app v, None)"
proof -
  from shape have obj: "is_object v"
    and sys: "absent_or is_object (field v (asc ''sys''))"
    and main: "absent_or is_object (field v (asc ''main''))"
    and wind: "absent_or is_object (field v (asc ''wind''))"
    and clouds: "absent_or is_object (field v (asc ''clouds''))"
    and weather: "absent_or is_weather_list (field v (asc ''weather''))"
    and deg: "absent_or is_number (field2 v (asc ''wind'') (asc ''deg''))"
    and sunrise: "absent_or (is_epoch rt) (field2 v (asc ''sys'') (asc ''sunrise''))"
    and sunset: "absent_or (is_epoch rt) (field2 v (asc ''sys'') (asc ''sunset''))"
    by (simp_all add: provider_shape_def)
  note gets = py_get_field [OF obj] get2_field2 [OF obj sys] get2_field2 [OF obj main]
    get2_field2 [OF obj wind] get2_field2 [OF obj clouds] weather0_field [OF obj weather]
  have "is_string (get_or (weather_field v (asc ''description'')) (JStr (asc ''N/A'')))"
    and "is_string (get_or (weather_field v (asc ''main'')) (JStr []))"
    using weather by (simp_all add: weather_field_string)
  then obtain d k
    where desc: "py_title (get_or (weather_field v (asc ''description'')) (JStr (asc ''N/A''))) = Inr d"
      and keyword: "py_lower (get_or (weather_field v (asc ''main'')) (JStr [])) = Inr k"
    using py_title_string py_lower_string by blast
  let ?r = "\<lparr>r_city = get_or (field v (asc ''name'')) (JStr (asc ''Unknown'')),
      r_country = get_or (field2 v (asc ''sys'') (asc ''country'')) (JStr []),
      r_temp = get_or (field2 v (asc ''main'') (asc ''temp'')) na,
      r_feels_like = get_or (field2 v (asc ''main'') (asc ''feels_like'')) na,
      r_humidity = get_or (field2 v (asc ''main'') (asc ''humidity'')) na,
      r_pressure = get_or (field2 v (asc ''main'') (asc ''pressure'')) na,
      r_weather_desc = text_of (py_title (get_or (weather_field v (asc ''description'')) na)),
      r_wind_speed = get_or (field2 v (asc ''wind'') (asc ''speed'')) na,
      r_wind_dir = get_or (field2 v (asc ''wind'') (asc ''deg'')) na,
      r_visibility = get_or (field v (asc ''visibility'')) na,
      r_sunrise_time =
        text_of (time_text rt (get_or (field2 v (asc ''sys'') (asc ''sunrise'')) JNull)),
      r_sunset_time =
        text_of (time_text rt (get_or (field2 v (asc ''sys'') (asc ''sunset'')) JNull))\<rparr>"
  have extracted: "extract_report rt v = Inr ?r"
    unfolding extract_report_def
    by (simp add: gets desc time_text_epoch [OF sunrise] time_text_epoch [OF sunset] na_def
        text_of_def)
  have printed: "print_report rt app v ?r = (rendered_report rt app v, None)"
    unfolding print_report_def
    using wind_direction_lines_number [OF deg, of rt]
    by (simp add: gets desc keyword rendered_report_def head_lines_def middle_lines_def
        Let_def na_def text_of_def)
  from ok have "truthy v" and "eq_int (get_or (field v (asc ''cod'')) JNull) 200"
    by (simp_all add: successful_truthy successful_def)
  then show ?thesis
    by (simp add: display_weather_def gets extracted printed)
qed


section \<open>Rendering a response that is not successful\<close>

text \<open>
  Claim C3, as amended. For every response object that is not empty and whose status code
  is not 200 (an absent code included), the method prints one line and nothing else: the
  error line made from the message of the response, or from \<^verbatim>\<open>Unknown error\<close> when there is
  no message. The empty response object is not successful either, and for it the method
  prints only that there is no weather data. In neither case is a line of the report
  printed.
\<close>

theorem display_weather_error_only:
  "(kv \<noteq> [] \<and> \<not> successful (JObj kv) \<longrightarrow>
      display_weather rt app (JObj kv) =
        ([error_line (py_str rt (get_or (field (JObj kv) (asc ''message''))
                                   (JStr (asc ''Unknown error''))))], None)) \<and>
   \<not> successful (JObj []) \<and>
   display_weather rt app (JObj []) = ([asc ''No weather data to display.''], None)"
  by (simp add: display_weather_def successful_def get_or_def)

theorem display_weather_error_only_witness:
  "display_weather utc_runtime (init (asc ''KEY''))
     (JObj [(asc ''cod'', JStr (asc ''404'')), (asc ''message'', JStr (asc ''city not found''))]) =
     ([asc ''Error: city not found''], None) \<and>
   display_weather utc_runtime (init (asc ''KEY'')) (JObj [(asc ''cod'', JInt 500)]) =
     ([asc ''Error: Unknown error''], None)"
  using display_weather_error_only [of "[(asc ''cod'', JStr (asc ''404'')),
      (asc ''message'', JStr (asc ''city not found''))]" utc_runtime "init (asc ''KEY'')"]
    display_weather_error_only [of "[(asc ''cod'', JInt 500)]" utc_runtime "init (asc ''KEY'')"]
  by (simp add: successful_def get_or_def error_line_def asc_def)

text \<open>
  The claim as stated fails for the empty response object: its status code is not 200, and
  the line printed is not the error line.
\<close>

theorem display_weather_empty_counterexample:
  "\<not> eq_int (get_or (field (JObj []) (asc ''cod'')) JNull) 200 \<and>
   display_weather utc_runtime (init (asc ''KEY'')) (JObj []) =
     ([asc ''No weather data to display.''], None) \<and>
   asc ''No weather data to display.'' \<noteq> error_line (asc ''Unknown error'')"
  by (simp add: display_weather_def get_or_def error_line_def asc_def)


section \<open>Rendering a successful response\<close>













section \<open>Sunrise and sunset\<close>

lemma hms_format:
  "\<exists>h m s. h < 24 \<and> m < 60 \<and> s < 60 \<and> int (h * 3600 + m * 60 + s) = t mod 86400 \<and>
     hms t = two_digits h @ [58] @ two_digits m @ [58] @ two_digits s"
proof -
  define sod where "sod = nat (t mod 86400)"
  have "sod < 86400"
    by (simp add: sod_def nat_less_iff)
  then have "sod div 3600 < 24"
    by (simp add: less_mult_imp_div_less)
  moreover have "sod mod 3600 div 60 < 60"
    by (simp add: less_mult_imp_div_less)
  moreover have "sod mod 60 < 60"
    by simp
  moreover have "sod mod 3600 mod 60 = sod mod 60"
    by (simp add: mod_mod_cancel)
  then have "sod div 3600 * 3600 + sod mod 3600 div 60 * 60 + sod mod 60 = sod"
    using div_mult_mod_eq [of sod 3600] div_mult_mod_eq [of "sod mod 3600" 60] by linarith
  then have "int (sod div 3600 * 3600 + sod mod 3600 div 60 * 60 + sod mod 60) = t mod 86400"
    by (simp add: sod_def)
  moreover have "hms t = two_digits (sod div 3600) @ [58] @ two_digits (sod mod 3600 div 60) @
      [58] @ two_digits (sod mod 60)"
    by (simp add: hms_def sod_def Let_def)
  ultimately show ?thesis
    by blast
qed

lemma sunrise_rendered_when_truthy:
  assumes "provider_shape rt v" and "successful v"
    and "field2 v (asc ''sys'') (asc ''sunrise'') = Some (JInt t)" and "t \<noteq> 0"
  shows "sunrise_line (hms (t + utc_offset rt t)) \<in> set (fst (display_weather rt app v))"
proof -
  have out: "display_weather rt app v = (rendered_report rt app v, None)"
    using assms(1,2) by (rule display_weather_rendered)
  from assms(1,3) have "is_epoch rt (JInt t)"
    by (simp add: provider_shape_def absent_or_def)
  with assms(4) have "time_text rt (JInt t) = Inr (hms (t + utc_offset rt t))"
    by (simp add: time_text_def local_hms_def Let_def)
  with assms(3) show ?thesis
    unfolding out fst_conv
    by (simp add: rendered_report_def get_or_def text_of_def)
qed

text \<open>
  Claim C8 says that a sunrise that is present is rendered as the local time of day. The
  lemma above shows it for every epoch other than 0. For the epoch 0 the condition
  \<^verbatim>\<open>if sunrise:\<close> is false, and the sunrise that is present is rendered as \<^verbatim>\<open>N/A\<close>
  although its local time of day, 00:00:00 in UTC, exists.
\<close>

theorem sunrise_epoch_zero_rendered_absent:
  "provider_shape utc_runtime
     (JObj [(asc ''cod'', JInt 200), (asc ''sys'', JObj [(asc ''sunrise'', JInt 0)])]) \<and>
   successful (JObj [(asc ''cod'', JInt 200), (asc ''sys'', JObj [(asc ''sunrise'', JInt 0)])]) \<and>
   field2 (JObj [(asc ''cod'', JInt 200), (asc ''sys'', JObj [(asc ''sunrise'', JInt 0)])])
     (asc ''sys'') (asc ''sunrise'') = Some (JInt 0) \<and>
   fst (display_weather utc_runtime (init (asc ''KEY''))
     (JObj [(asc ''cod'', JInt 200), (asc ''sys'', JObj [(asc ''sunrise'', JInt 0)])])) ! 9 =
     sunrise_line (asc ''N/A'') \<and>
   local_hms utc_runtime 0 = Inr (asc ''00:00:00'') \<and>
   sunrise_line (asc ''N/A'') \<noteq> sunrise_line (asc ''00:00:00'')"
proof -
  let ?v = "JObj [(asc ''cod'', JInt 200), (asc ''sys'', JObj [(asc ''sunrise'', JInt 0)])]"
  have shape: "provider_shape utc_runtime ?v"
    by (simp add: provider_shape_def absent_or_def field2_def utc_runtime_def)
  have ok: "successful ?v"
    by (simp add: successful_def get_or_def)
  have "display_weather utc_runtime (init (asc ''KEY'')) ?v =
      (rendered_report utc_runtime (init (asc ''KEY'')) ?v, None)"
    using shape ok by (rule display_weather_rendered)
  moreover have "rendered_report utc_runtime (init (asc ''KEY'')) ?v ! 9 = sunrise_line (asc ''N/A'')"
    by (simp add: rendered_report_def field2_def get_or_def time_text_def text_of_def)
  moreover have "local_hms utc_runtime 0 = Inr (asc ''00:00:00'')"
    by (simp add: local_hms_def utc_runtime_def hms_def two_digits_def asc_def)
  ultimately show ?thesis
    using shape ok by (simp add: field2_def sunrise_line_def)
qed


section \<open>Fetching\<close>

lemma sent_print_out [simp]: "sent (print_out texts w) = sent w"
  by (simp add: print_out_def)

lemma stdin_print_out [simp]: "stdin (print_out texts w) = stdin w"
  by (simp add: print_out_def)

lemma fst_except_request:
  "fst (except_request (RequestException failure text) w) = Inr JNull"
  by simp

lemma sent_except_request [simp]: "sent (snd (except_request e w)) = sent w"
  by (cases e) simp_all

lemma sent_try_request [simp]: "sent (snd (try_request net rq w)) = sent w @ [rq]"
  by (simp add: try_request_def Let_def split: sum.splits option.splits)

lemma sent_show_result [simp]: "sent (snd (show_result rt app fetched)) = sent (snd fetched)"
  by (cases fetched) (simp add: show_result_def split: sum.splits prod.splits)



text \<open>The caller answers the value \<^verbatim>\<open>None\<close> in one way, whatever the failure was.\<close>

lemma show_result_none:
  "show_result rt app (Inr JNull, w) =
     (None, print_out
        [asc ''Could not retrieve weather data. Please check your input and try again.''] w)"
  by (simp add: show_result_def)

lemma validate_zip_no_space:
  assumes "validate_input location = (True, asc ''zip'')"
  shows "\<forall>c\<in>set location. \<not> isspace_cp c"
proof -
  from assms have "str_isdigit (filter (\<lambda>c. c \<noteq> hyphen) location)"
    by (simp add: validate_input_def str_replace_empty Let_def split: if_splits)
  then have "\<forall>c\<in>set location. isdigit_cp c \<or> c = hyphen"
    by (auto simp: str_isdigit_def list_all_iff)
  then show ?thesis
    using isdigit_not_space hyphen_not_space by blast
qed

text \<open>
  The line typed is trimmed before it is classified, and the trimmed line is what is sent.
\<close>

lemma check_weather_zip:
  assumes "stdin w = line # country_line # rest"
    and "validate_input (str_strip line) = (True, asc ''zip'')"
  shows "sent (snd (check_weather rt net app w)) =
    sent w @ [(base_url app, zip_params app (str_strip line)
      (if str_strip country_line \<noteq> [] then str_strip country_line else asc ''US''))]"
  using assms
  by (simp add: check_weather_def py_input_def get_weather_by_zip_def Let_def)

text \<open>
  Claim C10. For every input that is classified as a postal code, \<^verbatim>\<open>check_weather\<close> issues
  one request, and its \<^verbatim>\<open>zip\<close> parameter is the input as typed, hyphens included,
  followed by a comma and the country: the country typed, trimmed, or \<^verbatim>\<open>US\<close> when none
  was typed.
\<close>

theorem zip_code_sent_verbatim:
  assumes "stdin w = location # country_line # rest"
    and "validate_input location = (True, asc ''zip'')"
  shows "(let country = str_strip country_line;
              country = (if country \<noteq> [] then country else asc ''US'')
          in sent (snd (check_weather rt net app w)) =
               sent w @ [(base_url app, zip_params app location country)] \<and>
             map_of (zip_params app location country) (asc ''zip'') =
               Some (location @ asc '','' @ country))"
proof -
  from assms(2) have "str_strip location = location"
    by (simp add: validate_zip_no_space str_strip_id)
  with assms check_weather_zip [of w location country_line rest rt net app] show ?thesis
    by (simp add: zip_params_def Let_def)
qed

theorem zip_code_sent_verbatim_witness:
  "validate_input (asc ''12345-6789'') = (True, asc ''zip'') \<and>
   sent (snd (check_weather utc_runtime
       (fixed_network (Inr \<lparr>status_error = None, json_body = Inr JNull\<rparr>))
       (init (asc ''KEY'')) (console [asc ''12345-6789'', asc ''  ''])))
     = [(asc ''http://api.openweathermap.org/data/2.5/weather'',
         [(asc ''zip'', asc ''12345-6789,US''), (asc ''appid'', asc ''KEY''),
          (asc ''units'', asc ''metric''), (asc ''lang'', asc ''en'')])] \<and>
   sent (snd (check_weather utc_runtime
       (fixed_network (Inr \<lparr>status_error = None, json_body = Inr JNull\<rparr>))
       (init (asc ''KEY'')) (console [asc ''12345-6789'', asc '' IN''])))
     = [(asc ''http://api.openweathermap.org/data/2.5/weather'',
         [(asc ''zip'', asc ''12345-6789,IN''), (asc ''appid'', asc ''KEY''),
          (asc ''units'', asc ''metric''), (asc ''lang'', asc ''en'')])]"
proof -
  have zip: "validate_input (asc ''12345-6789'') = (True, asc ''zip'')"
    by (simp add: validate_input_def str_replace_def str_isspace_def str_isdigit_def asc_def
        hyphen_def isspace_cp_def space_points_def isdigit_cp_def digit_ranges_def)
  have strip: "str_strip (asc ''  '') = []" "str_strip (asc '' IN'') = asc ''IN''"
    by (simp_all add: str_strip_def asc_def isspace_cp_def space_points_def)
  show ?thesis
    using zip strip
      zip_code_sent_verbatim [of "console [asc ''12345-6789'', asc ''  '']" "asc ''12345-6789''"
        "asc ''  ''" "[]" utc_runtime
        "fixed_network (Inr \<lparr>status_error = None, json_body = Inr JNull\<rparr>)"
        "init (asc ''KEY'')"]
      zip_code_sent_verbatim [of "console [asc ''12345-6789'', asc '' IN'']" "asc ''12345-6789''"
        "asc '' IN''" "[]" utc_runtime
        "fixed_network (Inr \<lparr>status_error = None, json_body = Inr JNull\<rparr>)"
        "init (asc ''KEY'')"]
    by (simp add: console_def zip_params_def init_def asc_append [symmetric])
qed

text \<open>
  Claim C9. The input \<^verbatim>\<open>10001\<close> is classified as a postal code, and when the user types no
  country code, \<^verbatim>\<open>check_weather\<close> issues one request whose location parameter is
  \<^verbatim>\<open>zip=10001,US\<close>.
\<close>

theorem check_weather_10001:
  assumes "stdin w = asc ''10001'' # country_line # rest" and "str_strip country_line = []"
  shows "validate_input (asc ''10001'') = (True, asc ''zip'') \<and>
    sent (snd (check_weather rt net app w)) =
      sent w @ [(base_url app,
                 [(asc ''zip'', asc ''10001,US''), (asc ''appid'', api_key app),
                  (asc ''units'', units app), (asc ''lang'', asc ''en'')])]"
proof -
  have zip: "validate_input (asc ''10001'') = (True, asc ''zip'')"
    by (simp add: validate_input_def str_replace_def str_isspace_def str_isdigit_def asc_def
        hyphen_def isspace_cp_def space_points_def isdigit_cp_def digit_ranges_def)
  then have "str_strip (asc ''10001'') = asc ''10001''"
    by (simp add: validate_zip_no_space str_strip_id)
  with zip assms check_weather_zip [of w "asc ''10001''" country_line rest rt net app]
  show ?thesis
    by (simp add: zip_params_def asc_append [symmetric])
qed

theorem check_weather_10001_witness:
  "validate_input (asc ''10001'') = (True, asc ''zip'') \<and>
   sent (snd (check_weather utc_runtime
       (fixed_network (Inr \<lparr>status_error = None, json_body = Inr JNull\<rparr>))
       (init (asc ''KEY'')) (console [asc ''10001'', []])))
     = [(asc ''http://api.openweathermap.org/data/2.5/weather'',
         [(asc ''zip'', asc ''10001,US''), (asc ''appid'', asc ''KEY''),
          (asc ''units'', asc ''metric''), (asc ''lang'', asc ''en'')])]"
  using check_weather_10001 [of "console [asc ''10001'', []]" "[]" "[]" utc_runtime
      "fixed_network (Inr \<lparr>status_error = None, json_body = Inr JNull\<rparr>)"
      "init (asc ''KEY'')"]
  by (simp add: console_def init_def str_strip_def)


section \<open>The unit preference is kept\<close>








end
